theory Spec2Isabelle
  imports Complex_Main
begin

section \<open>Loan-cost engine: data model\<close>

text \<open>
  The Python sources compute with \<open>float\<close> and \<open>int\<close>. Here every float is a
  \<^typ>\<open>real\<close> and every Python integer an \<^typ>\<open>int\<close>. The values are exact: the rounding
  of a float result is outside the model, and nothing below is meant to say how far a
  rounded value lies from the exact one. What is in the model is every place where a
  float operation raises: see \<open>py_float_pow\<close>, \<open>py_float_div\<close> and
  \<open>py_float_one_plus\<close>.
  Field names carry a short prefix (\<open>mp_\<close>, \<open>arg_\<close>, \<open>ls_\<close>, \<open>lcs_\<close>, ...) where
  the plain name is needed for a variable or for a field of another record.
  \<open>float('inf')\<close>, the default of \<open>origination_max_vnd\<close>, is \<open>None\<close>.
\<close>

record MonthlyPayment =
  mp_month :: int
  mp_interest :: real
  mp_principal :: real
  mp_payment :: real
  mp_remaining_balance :: real
  mp_fees :: real
  mp_insurance :: real
  mp_rate_applied :: real
  mp_is_grace_period :: bool

record AmortizationSchedule =
  payments :: "MonthlyPayment list"
  total_interest :: real
  total_principal :: real
  total_payments :: real
  total_fees :: real
  total_insurance :: real

record RateStructure =
  fixed_rate_pct :: real
  fixed_months :: int
  floating_margin_pct :: real
  reference_rate_pct :: real

text \<open>One entry of \<open>prepayment_schedule\<close>: a dict read with \<open>tier.get\<close>, so each key
  may be missing (\<open>None\<close>).\<close>

record PrepaymentTier =
  months_from :: "int option"
  months_to :: "int option"
  fee_pct :: "real option"

record FeeStructure =
  origination_fee_pct :: real
  origination_min_vnd :: real
  origination_max_vnd :: "real option"
  appraisal_fee_vnd :: real
  disbursement_fee_vnd :: real
  disbursement_fee_pct :: real
  account_maintenance_fee_vnd :: real
  insurance_annual_pct :: real
  insurance_vnd :: real
  insurance_basis :: string
  property_value_vnd :: real
  prepayment_schedule :: "PrepaymentTier list"

record PrepaymentInfo =
  prepayment_month :: "int option"
  prepayment_amount_vnd :: "real option"
  is_partial :: bool

text \<open>The arguments of \<open>generate_amortization_schedule\<close>, in the source's order.\<close>

record ScheduleArgs =
  arg_principal :: real
  arg_tenor_months :: int
  arg_rate_structure :: RateStructure
  arg_repayment_method :: string
  arg_grace_principal_months :: int
  arg_grace_interest_months :: int
  arg_fee_structure :: "FeeStructure option"
  arg_prepayment_info :: "PrepaymentInfo option"
  arg_scenario_bump :: real

section \<open>Float operations that raise\<close>

text \<open>
  A float power whose value is \<open>2 ^ 1024\<close> or more lies beyond every double: Python
  raises \<open>OverflowError\<close>. A power of at most \<open>2 ^ -1075\<close> is the float \<open>0.0\<close>. A
  division by \<open>0.0\<close> raises \<open>ZeroDivisionError\<close>. The float sum \<open>1 + x\<close> is
  \<open>1.0\<close> for \<open>0 \<le> x \<le> 2 ^ -53\<close>, and a quotient of at most \<open>2 ^ -1075\<close> is
  \<open>0.0\<close>: these two decide whether \<open>annuity_payment\<close> divides by zero. The monthly
  rate \<open>rate / 12\<close> is such a quotient, in \<open>annuity_payment\<close> and in the loop of
  the schedule.
\<close>

datatype py_error = OverflowError | ZeroDivisionError | KeyError

definition py_float_pow :: "real \<Rightarrow> nat \<Rightarrow> py_error + real" where
  "py_float_pow b t =
     (if 2 ^ 1024 \<le> \<bar>b ^ t\<bar> then Inl OverflowError
      else if \<bar>b ^ t\<bar> \<le> 1 / 2 ^ 1075 then Inr 0
      else Inr (b ^ t))"

definition py_float_div :: "real \<Rightarrow> real \<Rightarrow> py_error + real" where
  "py_float_div x y = (if y = 0 then Inl ZeroDivisionError else Inr (x / y))"

definition py_float_one_plus :: "real \<Rightarrow> real" where
  "py_float_one_plus x = (if 0 \<le> x \<and> x \<le> 1 / 2 ^ 53 then 1 else 1 + x)"

definition py_float_underflow :: "real \<Rightarrow> real" where
  "py_float_underflow x = (if \<bar>x\<bar> \<le> 1 / 2 ^ 1075 then 0 else x)"

section \<open>Rates, annuity payment and fees\<close>

definition get_rate_for_month :: "RateStructure \<Rightarrow> int \<Rightarrow> real \<Rightarrow> real" where
  "get_rate_for_month rs month scenario_bump =
     (if month \<le> fixed_months rs then fixed_rate_pct rs / 100
      else (reference_rate_pct rs + floating_margin_pct rs + scenario_bump * 100) / 100)"

text \<open>\<open>annuity_payment\<close> raises \<open>OverflowError\<close> when \<open>(1 + monthly_rate) ** months\<close>
  overflows, and \<open>ZeroDivisionError\<close> when the monthly rate is positive but so small
  that \<open>1 + monthly_rate\<close> is \<open>1.0\<close> and \<open>factor - 1\<close> is zero.\<close>

definition annuity_payment :: "real \<Rightarrow> real \<Rightarrow> int \<Rightarrow> py_error + real" where
  "annuity_payment principal_vnd annual_rate months =
     (if principal_vnd \<le> 0 \<or> months \<le> 0 then Inr 0
      else let monthly_rate = py_float_underflow (max annual_rate 0 / 12) in
        if monthly_rate = 0 then Inr (principal_vnd / real_of_int months)
        else case py_float_pow (py_float_one_plus monthly_rate) (nat months) of
               Inl e \<Rightarrow> Inl e
             | Inr factor \<Rightarrow>
                 py_float_div (principal_vnd * monthly_rate * factor) (factor - 1))"

definition calculate_upfront_fees :: "real \<Rightarrow> FeeStructure \<Rightarrow> real" where
  "calculate_upfront_fees principal_vnd fs =
     (let origination = principal_vnd * (origination_fee_pct fs / 100);
          origination = max origination (origination_min_vnd fs);
          origination = (case origination_max_vnd fs of
                           None \<Rightarrow> origination
                         | Some cap \<Rightarrow> min origination cap)
      in origination + appraisal_fee_vnd fs + disbursement_fee_vnd fs
           + principal_vnd * (disbursement_fee_pct fs / 100))"

definition calculate_monthly_insurance :: "real \<Rightarrow> FeeStructure \<Rightarrow> real" where
  "calculate_monthly_insurance balance fs =
     (if insurance_vnd fs > 0 then insurance_vnd fs / 12
      else if insurance_annual_pct fs > 0 then
        (if insurance_basis fs = ''on_property_value'' \<and> property_value_vnd fs > 0
         then property_value_vnd fs * (insurance_annual_pct fs / 100) / 12
         else balance * (insurance_annual_pct fs / 100) / 12)
      else 0)"

text \<open>The loop over the tiers of \<open>_calculate_prepayment_fee\<close>: the first tier whose
  range holds the month decides; a missing \<open>months_to\<close> is an open end.\<close>

fun calculate_prepayment_fee_tiers :: "real \<Rightarrow> int \<Rightarrow> PrepaymentTier list \<Rightarrow> real" where
  "calculate_prepayment_fee_tiers remaining_balance month [] = 0"
| "calculate_prepayment_fee_tiers remaining_balance month (tier # rest) =
     (let mfrom = (case months_from tier of None \<Rightarrow> 0 | Some f \<Rightarrow> f);
          pct = (case fee_pct tier of None \<Rightarrow> 0 | Some p \<Rightarrow> p)
      in if mfrom \<le> month \<and> (case months_to tier of None \<Rightarrow> True | Some t \<Rightarrow> month \<le> t)
         then remaining_balance * (pct / 100)
         else calculate_prepayment_fee_tiers remaining_balance month rest)"

definition calculate_prepayment_fee_sched :: "real \<Rightarrow> int \<Rightarrow> PrepaymentTier list \<Rightarrow> real" where
  "calculate_prepayment_fee_sched remaining_balance month sched =
     (if sched = [] then 0 else calculate_prepayment_fee_tiers remaining_balance month sched)"

section \<open>The amortization schedule\<close>

text \<open>The local variables of the loop of \<open>generate_amortization_schedule\<close>.\<close>

record LoopState =
  ls_payments :: "MonthlyPayment list"
  ls_remaining :: real
  ls_total_interest :: real
  ls_total_principal :: real
  ls_total_fees :: real
  ls_total_insurance :: real
  ls_current_rate :: real
  ls_months_at_current_rate :: int
  ls_remaining_at_rate_start :: real

definition prepayment_due :: "ScheduleArgs \<Rightarrow> int \<Rightarrow> bool" where
  "prepayment_due a month =
     (case arg_prepayment_info a of
        None \<Rightarrow> False
      | Some pinfo \<Rightarrow> prepayment_month pinfo = Some month)"

text \<open>The branch taken in the prepayment month: the whole balance is paid, the tiered
  fee is charged, and the loop ends.\<close>

definition prepay_step :: "ScheduleArgs \<Rightarrow> int \<Rightarrow> LoopState \<Rightarrow> LoopState" where
  "prepay_step a month s =
     (let remaining = ls_remaining s;
          prepay_fee = calculate_prepayment_fee_sched remaining month
             (case arg_fee_structure a of None \<Rightarrow> [] | Some fs \<Rightarrow> prepayment_schedule fs);
          final_payment = \<lparr> mp_month = month, mp_interest = 0, mp_principal = remaining,
             mp_payment = remaining + prepay_fee, mp_remaining_balance = 0,
             mp_fees = prepay_fee, mp_insurance = 0,
             mp_rate_applied = ls_current_rate s, mp_is_grace_period = False \<rparr>
      in s \<lparr> ls_payments := ls_payments s @ [final_payment],
             ls_total_principal := ls_total_principal s + remaining,
             ls_total_fees := ls_total_fees s + prepay_fee \<rparr>)"

text \<open>One ordinary month, up to the test \<open>remaining <= 0\<close> that follows it. It raises
  what \<open>annuity_payment\<close> raises, which is called in the last branch only.\<close>

definition month_step :: "ScheduleArgs \<Rightarrow> int \<Rightarrow> LoopState \<Rightarrow> py_error + LoopState" where
  "month_step a month s =
     (let remaining = ls_remaining s;
          new_rate = get_rate_for_month (arg_rate_structure a) month (arg_scenario_bump a);
          changed = (\<bar>new_rate - ls_current_rate s\<bar> > 1 / 10 ^ 10);
          current_rate = (if changed then new_rate else ls_current_rate s);
          months_at_current_rate = (if changed then 0 else ls_months_at_current_rate s) + 1;
          remaining_at_rate_start = (if changed then remaining else ls_remaining_at_rate_start s);
          monthly_rate = py_float_underflow (current_rate / 12);
          is_principal_grace = (month \<le> arg_grace_principal_months a);
          is_interest_grace = (month \<le> arg_grace_interest_months a);
          interest = (if is_interest_grace then 0 else remaining * monthly_rate);
          remaining_months = arg_tenor_months a - month + 1;
          pp = (if is_principal_grace then Inr (0, interest)
                else if arg_repayment_method a = ''equal_principal''
                then Inr (remaining / real_of_int remaining_months,
                          remaining / real_of_int remaining_months + interest)
                else case annuity_payment remaining current_rate remaining_months of
                       Inl e \<Rightarrow> Inl e
                     | Inr payment \<Rightarrow> Inr (payment - interest, payment))
      in case pp of
           Inl e \<Rightarrow> Inl e
         | Inr (principal_part, payment) \<Rightarrow>
            (let principal_payment = min principal_part remaining;
                 remaining' = max 0 (remaining - principal_payment);
                 monthly_fees = (case arg_fee_structure a of None \<Rightarrow> 0
                                 | Some fs \<Rightarrow> account_maintenance_fee_vnd fs);
                 monthly_insurance = (case arg_fee_structure a of None \<Rightarrow> 0
                                 | Some fs \<Rightarrow>
                                     calculate_monthly_insurance (remaining' + principal_payment) fs);
                 mp = \<lparr> mp_month = month, mp_interest = interest,
                        mp_principal = principal_payment,
                        mp_payment = payment, mp_remaining_balance = remaining',
                        mp_fees = monthly_fees, mp_insurance = monthly_insurance,
                        mp_rate_applied = current_rate,
                        mp_is_grace_period = (is_principal_grace \<or> is_interest_grace) \<rparr>
             in Inr \<lparr> ls_payments = ls_payments s @ [mp],
                  ls_remaining = remaining',
                  ls_total_interest = ls_total_interest s + interest,
                  ls_total_principal = ls_total_principal s + principal_payment,
                  ls_total_fees = ls_total_fees s + monthly_fees,
                  ls_total_insurance = ls_total_insurance s + monthly_insurance,
                  ls_current_rate = current_rate,
                  ls_months_at_current_rate = months_at_current_rate,
                  ls_remaining_at_rate_start = remaining_at_rate_start \<rparr>))"

text \<open>\<open>for month in range(1, tenor_months + 1)\<close> with its two \<open>break\<close>s, as a
  recursion over the list of months.\<close>

fun schedule_loop :: "ScheduleArgs \<Rightarrow> int list \<Rightarrow> LoopState \<Rightarrow> py_error + LoopState" where
  "schedule_loop a [] s = Inr s"
| "schedule_loop a (month # rest) s =
     (if prepayment_due a month then Inr (prepay_step a month s)
      else case month_step a month s of
             Inl e \<Rightarrow> Inl e
           | Inr s' \<Rightarrow> if ls_remaining s' \<le> 0 then Inr s' else schedule_loop a rest s')"

definition initial_state :: "ScheduleArgs \<Rightarrow> LoopState" where
  "initial_state a =
     \<lparr> ls_payments = [],
       ls_remaining = arg_principal a,
       ls_total_interest = 0,
       ls_total_principal = 0,
       ls_total_fees = (case arg_fee_structure a of None \<Rightarrow> 0
                        | Some fs \<Rightarrow> calculate_upfront_fees (arg_principal a) fs),
       ls_total_insurance = 0,
       ls_current_rate = get_rate_for_month (arg_rate_structure a) 1 (arg_scenario_bump a),
       ls_months_at_current_rate = 0,
       ls_remaining_at_rate_start = arg_principal a \<rparr>"

text \<open>The result of the loop as an \<open>AmortizationSchedule\<close>.\<close>

definition schedule_of :: "LoopState \<Rightarrow> AmortizationSchedule" where
  "schedule_of s =
     \<lparr> payments = ls_payments s,
       total_interest = ls_total_interest s,
       total_principal = ls_total_principal s,
       total_payments = sum_list (map mp_payment (ls_payments s)),
       total_fees = ls_total_fees s,
       total_insurance = ls_total_insurance s \<rparr>"

definition generate_amortization_schedule :: "ScheduleArgs \<Rightarrow> py_error + AmortizationSchedule" where
  "generate_amortization_schedule a =
     (if arg_principal a \<le> 0 \<or> arg_tenor_months a \<le> 0
      then Inr \<lparr> payments = [], total_interest = 0, total_principal = 0, total_payments = 0,
                 total_fees = 0, total_insurance = 0 \<rparr>
      else case schedule_loop a [1..arg_tenor_months a] (initial_state a) of
             Inl e \<Rightarrow> Inl e
           | Inr s \<Rightarrow> Inr (schedule_of s))"

section \<open>Internal rate of return and APR\<close>

text \<open>
  The powers and quotients of \<open>calculate_irr\<close> are \<open>py_float_pow\<close> and
  \<open>py_float_div\<close>, so that it raises where the float code does.
\<close>

text \<open>The inner loop \<open>for t, cf in enumerate(cashflows)\<close>, with the two
  accumulators \<open>npv\<close> and \<open>npv_derivative\<close>.\<close>

fun npv_loop :: "real \<Rightarrow> nat \<Rightarrow> real list \<Rightarrow> real \<times> real \<Rightarrow> py_error + real \<times> real" where
  "npv_loop rate t [] acc = Inr acc"
| "npv_loop rate t (cf # cfs) (npv, npv_derivative) =
     (case py_float_pow (1 + rate) t of
        Inl e \<Rightarrow> Inl e
      | Inr discount \<Rightarrow>
         (case py_float_div cf discount of
            Inl e \<Rightarrow> Inl e
          | Inr q \<Rightarrow>
             if t > 0 then
               (case py_float_pow (1 + rate) (t + 1) of
                  Inl e \<Rightarrow> Inl e
                | Inr d1 \<Rightarrow>
                   (case py_float_div (real t * cf) d1 of
                      Inl e \<Rightarrow> Inl e
                    | Inr q1 \<Rightarrow> npv_loop rate (t + 1) cfs (npv + q, npv_derivative - q1)))
             else npv_loop rate (t + 1) cfs (npv + q, npv_derivative)))"

text \<open>What one pass of the Newton-Raphson loop does: leave the loop with the old rate
  (\<open>break\<close>), return the new rate, or go on with the new rate.\<close>

datatype irr_outcome = Break | Return real | Continue real

definition irr_iteration :: "real list \<Rightarrow> real \<Rightarrow> real \<Rightarrow> py_error + irr_outcome" where
  "irr_iteration cashflows tolerance rate =
     (case npv_loop rate 0 cashflows (0, 0) of
        Inl e \<Rightarrow> Inl e
      | Inr (npv, npv_derivative) \<Rightarrow>
          if \<bar>npv_derivative\<bar> < 1 / 10 ^ 20 then Inr Break
          else let new_rate = rate - npv / npv_derivative;
                   new_rate = max (- (1 / 2)) (min new_rate 1)
               in if \<bar>new_rate - rate\<bar> < tolerance then Inr (Return new_rate)
                  else Inr (Continue new_rate))"

text \<open>\<open>for _ in range(max_iterations)\<close>. The result is the rate together with the
  number of passes made, which the source does not return: it is kept here so that the
  iteration budget can be stated.\<close>

fun irr_loop :: "real list \<Rightarrow> real \<Rightarrow> nat \<Rightarrow> real \<Rightarrow> nat \<Rightarrow> py_error + real \<times> nat" where
  "irr_loop cashflows tolerance 0 rate k = Inr (rate, k)"
| "irr_loop cashflows tolerance (Suc n) rate k =
     (case irr_iteration cashflows tolerance rate of
        Inl e \<Rightarrow> Inl e
      | Inr Break \<Rightarrow> Inr (rate, Suc k)
      | Inr (Return r) \<Rightarrow> Inr (r, Suc k)
      | Inr (Continue r) \<Rightarrow> irr_loop cashflows tolerance n r (Suc k))"

definition calculate_irr_counted :: "real list \<Rightarrow> int \<Rightarrow> real \<Rightarrow> py_error + real \<times> nat" where
  "calculate_irr_counted cashflows max_iterations tolerance =
     (if length cashflows < 2 then Inr (0, 0)
      else irr_loop cashflows tolerance (nat max_iterations) (1 / 100) 0)"

definition calculate_irr :: "real list \<Rightarrow> py_error + real" where
  "calculate_irr cashflows =
     (case calculate_irr_counted cashflows 100 (1 / 10 ^ 10) of
        Inl e \<Rightarrow> Inl e
      | Inr (rate, k) \<Rightarrow> Inr rate)"

text \<open>The outflows of \<open>calculate_apr\<close>: one per payment, the last one with the
  prepayment fee added.\<close>

fun apr_outflows :: "MonthlyPayment list \<Rightarrow> real \<Rightarrow> real list" where
  "apr_outflows [] prepayment_fee = []"
| "apr_outflows [p] prepayment_fee =
     [- (mp_payment p + mp_fees p + mp_insurance p + prepayment_fee)]"
| "apr_outflows (p # ps) prepayment_fee =
     - (mp_payment p + mp_fees p + mp_insurance p) # apr_outflows ps prepayment_fee"

definition calculate_apr :: "real \<Rightarrow> AmortizationSchedule \<Rightarrow> real \<Rightarrow> real \<Rightarrow> py_error + real" where
  "calculate_apr principal_vnd schedule upfront_fees prepayment_fee =
     (if payments schedule = [] then Inr 0
      else let cashflows = (principal_vnd - upfront_fees)
                             # apr_outflows (payments schedule) prepayment_fee
           in case calculate_irr cashflows of
                Inl e \<Rightarrow> Inl e
              | Inr monthly_irr \<Rightarrow> Inr ((1 + monthly_irr) ^ 12 - 1))"

section \<open>Stress scenarios\<close>

record LoanCostSummary =
  lcs_total_interest :: real
  lcs_total_fees :: real
  lcs_total_insurance :: real
  lcs_total_cost_excluding_principal :: real
  lcs_total_out_of_pocket :: real
  lcs_apr :: real
  lcs_monthly_payment_first_12m :: real
  lcs_monthly_payment_post_promo :: real
  lcs_prepayment_fee :: real

text \<open>The arguments of \<open>stress_test_scenarios\<close>.\<close>

record StressArgs =
  st_principal :: real
  st_tenor_months :: int
  st_rate_structure :: RateStructure
  st_repayment_method :: string
  st_grace_principal_months :: int
  st_fee_structure :: "FeeStructure option"
  st_prepayment_info :: "PrepaymentInfo option"
  st_horizon_months :: "int option"

text \<open>The arguments of the call of \<open>generate_amortization_schedule\<close> in the loop
  \<open>for bump in scenarios\<close>: no interest-grace months are passed.\<close>

definition stress_args :: "StressArgs \<Rightarrow> real \<Rightarrow> ScheduleArgs" where
  "stress_args st bump =
       \<lparr> arg_principal = st_principal st, arg_tenor_months = st_tenor_months st,
         arg_rate_structure = st_rate_structure st,
         arg_repayment_method = st_repayment_method st,
         arg_grace_principal_months = st_grace_principal_months st,
         arg_grace_interest_months = 0,
         arg_fee_structure = st_fee_structure st,
         arg_prepayment_info = st_prepayment_info st,
         arg_scenario_bump = bump \<rparr>"

definition stress_horizon :: "StressArgs \<Rightarrow> int" where
  "stress_horizon st =
     (case st_horizon_months st of
        None \<Rightarrow> st_tenor_months st
      | Some h \<Rightarrow> if h = 0 then st_tenor_months st else h)"

fun first_fees_at :: "MonthlyPayment list \<Rightarrow> int \<Rightarrow> real" where
  "first_fees_at [] m = 0"
| "first_fees_at (p # ps) m = (if mp_month p = m then mp_fees p else first_fees_at ps m)"

definition average :: "real list \<Rightarrow> real" where
  "average xs = (if xs = [] then 0 else sum_list xs / real (length xs))"

text \<open>The body of the loop \<open>for bump in scenarios\<close>, after the schedule has been
  generated.\<close>

definition summary_of_schedule ::
  "StressArgs \<Rightarrow> AmortizationSchedule \<Rightarrow> py_error + LoanCostSummary" where
  "summary_of_schedule st schedule =
     (let horizon = stress_horizon st;
          horizon_payments = filter (\<lambda>p. mp_month p \<le> horizon) (payments schedule);
          interest_sum = sum_list (map mp_interest horizon_payments);
          fees_sum = sum_list (map mp_fees horizon_payments);
          insurance_sum = sum_list (map mp_insurance horizon_payments);
          upfront_fees = (case st_fee_structure st of None \<Rightarrow> 0
                          | Some fs \<Rightarrow> calculate_upfront_fees (st_principal st) fs);
          fees_sum = fees_sum + upfront_fees;
          prepay_fee = (case st_prepayment_info st of
                          None \<Rightarrow> 0
                        | Some pinfo \<Rightarrow>
                            (case prepayment_month pinfo of
                               None \<Rightarrow> 0
                             | Some k \<Rightarrow> if k = 0 then 0
                                         else first_fees_at (payments schedule) k));
          first_12 = map mp_payment (take 12 horizon_payments);
          post_promo = map mp_payment
             (filter (\<lambda>p. mp_month p > fixed_months (st_rate_structure st)) (payments schedule));
          payments_sum = sum_list (map mp_payment horizon_payments)
      in case calculate_apr (st_principal st) schedule upfront_fees prepay_fee of
           Inl e \<Rightarrow> Inl e
         | Inr apr \<Rightarrow> Inr
            \<lparr> lcs_total_interest = interest_sum,
              lcs_total_fees = fees_sum,
              lcs_total_insurance = insurance_sum,
              lcs_total_cost_excluding_principal = interest_sum + fees_sum + insurance_sum,
              lcs_total_out_of_pocket = upfront_fees + payments_sum + insurance_sum + prepay_fee,
              lcs_apr = apr,
              lcs_monthly_payment_first_12m = average first_12,
              lcs_monthly_payment_post_promo = average post_promo,
              lcs_prepayment_fee = prepay_fee \<rparr>)"

definition scenario_summary :: "StressArgs \<Rightarrow> real \<Rightarrow> py_error + LoanCostSummary" where
  "scenario_summary st bump =
     (case generate_amortization_schedule (stress_args st bump) of
        Inl e \<Rightarrow> Inl e
      | Inr schedule \<Rightarrow> summary_of_schedule st schedule)"

text \<open>The dict of the three scenarios, in insertion order.\<close>

definition stress_test_scenarios :: "StressArgs \<Rightarrow> py_error + (string \<times> LoanCostSummary) list" where
  "stress_test_scenarios st =
     (case scenario_summary st 0 of
        Inl e \<Rightarrow> Inl e
      | Inr s0 \<Rightarrow>
         (case scenario_summary st (2 / 100) of
            Inl e \<Rightarrow> Inl e
          | Inr s2 \<Rightarrow>
             (case scenario_summary st (4 / 100) of
                Inl e \<Rightarrow> Inl e
              | Inr s4 \<Rightarrow> Inr [(''+0%'', s0), (''+2%'', s2), (''+4%'', s4)])))"

section \<open>Eligibility filter\<close>

text \<open>
  The fields of the application, the product (with its bank, its eligibility, collateral
  and legacy-constraint dicts), the metrics dict and the user-input dict that the filter
  and the scores read. An enum-valued column is the string of its value; a nullable
  column or a dict key that may be missing is an option; a date is its day number.
\<close>

text \<open>The application with its incomes (\<open>monthly_net\<close> of each), its debts
  (\<open>monthly_payment\<close> of each) and its collaterals (\<open>collateral_type\<close> and
  \<open>estimated_value\<close> of each). The two credit flags are the truth values of
  \<open>credit_flags.get(...)\<close>.\<close>

record Application =
  app_purpose :: string
  app_loan_amount :: real
  app_tenor_months :: "int option"
  app_repayment_strategy :: "string option"
  app_planned_hold_months :: "int option"
  app_expected_prepayment_month :: "int option"
  app_expected_prepayment_amount_vnd :: "real option"
  app_income_type :: "string option"
  app_monthly_income_vnd :: "real option"
  app_proof_strength :: "string option"
  app_existing_debts_monthly_payment_vnd :: "real option"
  app_has_late_payments :: bool
  app_cic_bad_debt :: bool
  app_estimated_property_value_vnd :: "real option"
  app_priority_cost_vs_stability :: "real option"
  app_incomes :: "real list"
  app_debts :: "real list"
  app_collaterals :: "(string \<times> real) list"
  app_geo_location :: "string option"
  app_need_disbursement_by_date :: "int option"

definition app_collateral_types :: "Application \<Rightarrow> string list" where
  "app_collateral_types application = map fst (app_collaterals application)"

text \<open>The rate model of a product: of each promo option the keys \<open>fixed_rate_pct\<close> and
  \<open>fixed_months\<close>; of the \<open>floating\<close> dict the key \<open>floating_margin_pct\<close> and the
  truth values of \<open>reference_rate_source_url\<close> and \<open>caps_floors\<close>.\<close>

record RateModel =
  rm_promo_options :: "(real option \<times> int option) list"
  rm_floating_margin_pct :: "real option"
  rm_reference_rate_source_url :: bool
  rm_caps_floors :: bool
  rm_reference_rate_base_pct :: "real option"

text \<open>The keys of the \<open>upfront\<close>, \<open>recurring\<close> and \<open>prepayment\<close> dicts of
  \<open>fees_penalties\<close> that \<open>_build_fee_structure\<close> reads.\<close>

record FeesPenalties =
  fp_origination_fee_pct :: "real option"
  fp_origination_min_vnd :: "real option"
  fp_origination_max_vnd :: "real option"
  fp_appraisal_fee_vnd :: "real option"
  fp_disbursement_fee_vnd :: "real option"
  fp_disbursement_fee_pct :: "real option"
  fp_account_maintenance_fee_vnd :: "real option"
  fp_insurance_annual_pct :: "real option"
  fp_insurance_vnd :: "real option"
  fp_insurance_basis :: "string option"
  fp_prepayment_schedule :: "PrepaymentTier list option"

record LoanProduct =
  prod_id :: nat
  prod_purpose :: "string option"
  prod_min_term_months :: "int option"
  prod_max_term_months :: "int option"
  prod_max_ltv_pct :: "real option"
  prod_min_loan_amount :: "real option"
  prod_max_loan_amount :: "real option"
  prod_income_type_supported :: "string list"
  prod_min_income_vnd :: "real option"
  prod_collateral_types :: "string list"
  prod_coverage_provinces :: "string list"
  prod_max_dsr :: "real option"
  prod_hard_max_ltv :: "real option"
  prod_rate_fixed :: "real option"
  prod_rate_fixed_months :: "int option"
  prod_floating_margin :: "real option"
  prod_rate_model :: "RateModel option"
  prod_fees_penalties :: "FeesPenalties option"
  prod_repayment_method :: "string option"
  prod_grace_principal_months :: "int option"
  prod_sla_days_estimate :: "int option"
  prod_processing_sla :: "(int option \<times> int option \<times> int option \<times> int option) option"

text \<open>\<open>option.get("fixed_months")\<close> of each promo option of the rate model, if there is
  one.\<close>

definition prod_promo_fixed_months :: "LoanProduct \<Rightarrow> int option list" where
  "prod_promo_fixed_months product =
     (case prod_rate_model product of
        None \<Rightarrow> []
      | Some rm \<Rightarrow> map snd (rm_promo_options rm))"

record Metrics =
  met_total_income :: "real option"
  met_dsr :: "real option"
  met_ltv :: "real option"

record UserInput =
  ui_property_value :: real
  ui_priority_cost_vs_stability :: real

text \<open>Python truth of an optional number: present and not zero.\<close>

definition truthy_int :: "int option \<Rightarrow> bool" where
  "truthy_int x = (case x of None \<Rightarrow> False | Some v \<Rightarrow> v \<noteq> 0)"

definition truthy_real :: "real option \<Rightarrow> bool" where
  "truthy_real x = (case x of None \<Rightarrow> False | Some v \<Rightarrow> v \<noteq> 0)"

definition purpose_matches :: "string \<Rightarrow> string \<Rightarrow> bool" where
  "purpose_matches app_purpose_v product_purpose =
     (app_purpose_v = product_purpose
      \<or> (app_purpose_v = ''NEW_PURCHASE'' \<and> product_purpose \<in> set [''HOME_PURCHASE'', ''NEW_PURCHASE''])
      \<or> (app_purpose_v = ''HOME_PURCHASE'' \<and> product_purpose = ''NEW_PURCHASE''))"

text \<open>The checks of \<open>_apply_hard_filters_with_tenor\<close>, one definition for each
  \<open>if\<close> that appends to \<open>reasons\<close>: what it appends.\<close>

definition check_purpose :: "Application \<Rightarrow> LoanProduct \<Rightarrow> string list" where
  "check_purpose application product =
     (case prod_purpose product of
        None \<Rightarrow> []
      | Some pp \<Rightarrow> if pp \<noteq> [] \<and> \<not> purpose_matches (app_purpose application) pp
                   then [''PURPOSE_NOT_SUPPORTED''] else [])"

definition check_term_min :: "LoanProduct \<Rightarrow> int \<Rightarrow> string list" where
  "check_term_min product effective_tenor =
     (if truthy_int (prod_min_term_months product)
         \<and> effective_tenor < the (prod_min_term_months product)
      then [''TENOR_TOO_SHORT''] else [])"

definition check_term_max :: "LoanProduct \<Rightarrow> int \<Rightarrow> string list" where
  "check_term_max product effective_tenor =
     (if truthy_int (prod_max_term_months product)
         \<and> effective_tenor > the (prod_max_term_months product)
      then [''TENOR_TOO_LONG''] else [])"

definition check_ltv :: "Application \<Rightarrow> LoanProduct \<Rightarrow> UserInput \<Rightarrow> string list" where
  "check_ltv application product user_input =
     (if ui_property_value user_input > 0 \<and> truthy_real (prod_max_ltv_pct product)
         \<and> app_loan_amount application
               > ui_property_value user_input * (the (prod_max_ltv_pct product) / 100)
      then [''LTV_EXCEEDS_MAX''] else [])"

definition check_amount_min :: "Application \<Rightarrow> LoanProduct \<Rightarrow> string list" where
  "check_amount_min application product =
     (if truthy_real (prod_min_loan_amount product)
         \<and> app_loan_amount application < the (prod_min_loan_amount product)
      then [''LOAN_AMOUNT_TOO_LOW''] else [])"

definition check_amount_max :: "Application \<Rightarrow> LoanProduct \<Rightarrow> string list" where
  "check_amount_max application product =
     (if truthy_real (prod_max_loan_amount product)
         \<and> app_loan_amount application > the (prod_max_loan_amount product)
      then [''LOAN_AMOUNT_TOO_HIGH''] else [])"

definition check_income_type :: "Application \<Rightarrow> LoanProduct \<Rightarrow> string list" where
  "check_income_type application product =
     (case app_income_type application of
        None \<Rightarrow> []
      | Some it \<Rightarrow> if prod_income_type_supported product \<noteq> []
                      \<and> it \<notin> set (prod_income_type_supported product)
                   then [''INCOME_TYPE_NOT_SUPPORTED''] else [])"

definition check_min_income :: "Metrics \<Rightarrow> LoanProduct \<Rightarrow> string list" where
  "check_min_income metrics product =
     (if truthy_real (prod_min_income_vnd product) \<and> truthy_real (met_total_income metrics)
         \<and> the (met_total_income metrics) < the (prod_min_income_vnd product)
      then [''INCOME_BELOW_MIN''] else [])"

definition check_collateral :: "Application \<Rightarrow> LoanProduct \<Rightarrow> string list" where
  "check_collateral application product =
     (if prod_collateral_types product \<noteq> [] \<and> app_collateral_types application \<noteq> []
         \<and> \<not> list_ex (\<lambda>c. c \<in> set (prod_collateral_types product))
                 (app_collateral_types application)
      then [''COLLATERAL_TYPE_NOT_ALLOWED''] else [])"

definition check_geo :: "Application \<Rightarrow> LoanProduct \<Rightarrow> string list" where
  "check_geo application product =
     (case app_geo_location application of
        None \<Rightarrow> []
      | Some g \<Rightarrow> if prod_coverage_provinces product \<noteq> [] \<and> g \<noteq> []
                     \<and> g \<notin> set (prod_coverage_provinces product)
                  then [''GEO_NOT_SUPPORTED''] else [])"

definition check_dsr :: "Metrics \<Rightarrow> LoanProduct \<Rightarrow> string list" where
  "check_dsr metrics product =
     (case (prod_max_dsr product, met_dsr metrics) of
        (Some max_dsr, Some dsr) \<Rightarrow> if dsr > max_dsr then [''DSR_EXCEEDS_MAX''] else []
      | _ \<Rightarrow> [])"

text \<open>\<open>_apply_hard_filters_with_tenor\<close>: all checks run, in the order of the source,
  and the candidate passes when \<open>len(reasons) == 0\<close>.\<close>

definition apply_hard_filters_with_tenor ::
  "Application \<Rightarrow> Metrics \<Rightarrow> LoanProduct \<Rightarrow> UserInput \<Rightarrow> int \<Rightarrow> bool \<times> string list" where
  "apply_hard_filters_with_tenor application metrics product user_input effective_tenor =
     (let reasons = check_purpose application product
                  @ check_term_min product effective_tenor
                  @ check_term_max product effective_tenor
                  @ check_ltv application product user_input
                  @ check_amount_min application product
                  @ check_amount_max application product
                  @ check_income_type application product
                  @ check_min_income metrics product
                  @ check_collateral application product
                  @ check_geo application product
                  @ check_dsr metrics product
      in (length reasons = 0, reasons))"

text \<open>The primary reason that \<open>generate_recommendations\<close> reports for a rejected
  product.\<close>

definition primary_reason :: "string list \<Rightarrow> string" where
  "primary_reason reasons = (case reasons of [] \<Rightarrow> ''UNKNOWN'' | r # _ \<Rightarrow> r)"

section \<open>Scores\<close>

text \<open>The loop over \<open>promo_options\<close> of \<open>_calculate_stability_score\<close>. An option
  without the key \<open>fixed_months\<close> compares as 0; when that wins, \<open>option["fixed_months"]\<close>
  raises \<open>KeyError\<close>.\<close>

fun longest_fixed_months :: "int option list \<Rightarrow> int \<Rightarrow> py_error + int" where
  "longest_fixed_months [] fixed_months_v = Inr fixed_months_v"
| "longest_fixed_months (opt # rest) fixed_months_v =
     (case opt of
        None \<Rightarrow> if 0 > fixed_months_v then Inl KeyError
                else longest_fixed_months rest fixed_months_v
      | Some fm \<Rightarrow> if fm > fixed_months_v then longest_fixed_months rest fm
                   else longest_fixed_months rest fixed_months_v)"

definition calculate_stability_score ::
  "LoanProduct \<Rightarrow> LoanCostSummary option \<Rightarrow> LoanCostSummary option \<Rightarrow> UserInput
     \<Rightarrow> py_error + real" where
  "calculate_stability_score product base stress user_input =
     (case (base, stress) of
        (Some b, Some s) \<Rightarrow>
          (let volatility =
                 (if lcs_monthly_payment_first_12m b > 0
                  then (lcs_monthly_payment_post_promo s - lcs_monthly_payment_first_12m b)
                         / lcs_monthly_payment_first_12m b
                  else 0);
               volatility_score = max 0 (min 100 (100 - volatility * 500));
               fixed_months_0 = (case prod_rate_fixed_months product of None \<Rightarrow> 0 | Some m \<Rightarrow> m)
           in case longest_fixed_months (prod_promo_fixed_months product) fixed_months_0 of
                Inl e \<Rightarrow> Inl e
              | Inr fixed_months_v \<Rightarrow>
                  (let fixed_score = min 100 (real_of_int fixed_months_v * (100 / 24));
                       stability_pref = ui_priority_cost_vs_stability user_input / 100
                   in Inr (volatility_score * (1 - stability_pref * (3 / 10))
                           + fixed_score * (stability_pref * (3 / 10) + 35 / 100))))
      | _ \<Rightarrow> Inr 50)"

text \<open>\<open>_calculate_speed_score\<close> reads the clock: \<open>date.today()\<close> is the argument
  \<open>today\<close>.\<close>

definition sla_days_of :: "LoanProduct \<Rightarrow> int" where
  "sla_days_of product =
     (case prod_processing_sla product of
        Some (pre_approval_days, appraisal_days, final_approval_days, disbursement_days) \<Rightarrow>
          (case pre_approval_days of None \<Rightarrow> 0 | Some d \<Rightarrow> d)
          + (case appraisal_days of None \<Rightarrow> 0 | Some d \<Rightarrow> d)
          + (case final_approval_days of None \<Rightarrow> 0 | Some d \<Rightarrow> d)
          + (case disbursement_days of None \<Rightarrow> 0 | Some d \<Rightarrow> d)
      | None \<Rightarrow>
          (case prod_sla_days_estimate product of
             None \<Rightarrow> 30
           | Some d \<Rightarrow> if d = 0 then 30 else d))"

definition calculate_speed_score :: "int \<Rightarrow> LoanProduct \<Rightarrow> Application \<Rightarrow> real" where
  "calculate_speed_score today product application =
     (let sla_days = sla_days_of product in
      case app_need_disbursement_by_date application of
        None \<Rightarrow> max 50 (min 100 (100 - real_of_int (sla_days - 7) * (50 / 53)))
      | Some need_by \<Rightarrow>
          (let days_until_needed = need_by - today in
           if sla_days \<le> days_until_needed then
             (let margin = (if days_until_needed > 0
                            then real_of_int (days_until_needed - sla_days)
                                   / real_of_int days_until_needed
                            else 1)
              in min 100 (80 + margin * 20))
           else max 0 (50 - real_of_int (sla_days - days_until_needed) * 5)))"

section \<open>The recommendation run\<close>

text \<open>Python's \<open>x or d\<close> for an optional number, and \<open>dict.get(key, d)\<close>.\<close>

definition or_int :: "int option \<Rightarrow> int \<Rightarrow> int" where
  "or_int x d = (case x of None \<Rightarrow> d | Some v \<Rightarrow> if v = 0 then d else v)"

definition dict_get :: "'a option \<Rightarrow> 'a \<Rightarrow> 'a" where
  "dict_get x d = (case x of None \<Rightarrow> d | Some v \<Rightarrow> v)"

definition get_optimal_tenor :: "Application \<Rightarrow> LoanProduct \<Rightarrow> int" where
  "get_optimal_tenor application product =
     (if truthy_int (app_tenor_months application) then the (app_tenor_months application)
      else let min_term = or_int (prod_min_term_months product) 12;
               max_term = or_int (prod_max_term_months product) 360
           in if app_repayment_strategy application = Some ''UNCERTAIN'' then max_term
              else if app_repayment_strategy application = Some ''EARLY_EXIT'' then max_term
              else if app_repayment_strategy application = Some ''LONG_HOLD''
              then max min_term (min 240 max_term)
              else max_term)"



definition build_rate_structure :: "LoanProduct \<Rightarrow> RateStructure" where
  "build_rate_structure product =
     (let fixed_rate = (case prod_rate_fixed product of None \<Rightarrow> 0 | Some r \<Rightarrow> r);
          fixed_months_v = (case prod_rate_fixed_months product of None \<Rightarrow> 0 | Some m \<Rightarrow> m);
          floating_margin = (case prod_floating_margin product of None \<Rightarrow> 0 | Some m \<Rightarrow> m)
      in case prod_rate_model product of
           None \<Rightarrow>
             \<lparr> fixed_rate_pct = fixed_rate, fixed_months = fixed_months_v,
               floating_margin_pct = floating_margin, reference_rate_pct = 5 \<rparr>
         | Some rm \<Rightarrow>
            (let first_option = (case rm_promo_options rm of
                                   [] \<Rightarrow> (None, None)
                                 | option # _ \<Rightarrow> option);
                 fixed_rate = dict_get (fst first_option) fixed_rate;
                 fixed_months_v = dict_get (snd first_option) fixed_months_v;
                 floating_margin = dict_get (rm_floating_margin_pct rm) floating_margin;
                 reference_rate = (if truthy_real (rm_reference_rate_base_pct rm)
                                   then the (rm_reference_rate_base_pct rm) else 5)
             in \<lparr> fixed_rate_pct = fixed_rate, fixed_months = fixed_months_v,
                  floating_margin_pct = floating_margin, reference_rate_pct = reference_rate \<rparr>))"

definition build_fee_structure :: "LoanProduct \<Rightarrow> FeeStructure" where
  "build_fee_structure product =
     (case prod_fees_penalties product of
        None \<Rightarrow>
          \<lparr> origination_fee_pct = 0, origination_min_vnd = 0, origination_max_vnd = None,
            appraisal_fee_vnd = 0, disbursement_fee_vnd = 0, disbursement_fee_pct = 0,
            account_maintenance_fee_vnd = 0, insurance_annual_pct = 0, insurance_vnd = 0,
            insurance_basis = ''on_balance'', property_value_vnd = 0,
            prepayment_schedule = [] \<rparr>
      | Some fp \<Rightarrow>
          \<lparr> origination_fee_pct = dict_get (fp_origination_fee_pct fp) 0,
            origination_min_vnd = dict_get (fp_origination_min_vnd fp) 0,
            origination_max_vnd = fp_origination_max_vnd fp,
            appraisal_fee_vnd = dict_get (fp_appraisal_fee_vnd fp) 0,
            disbursement_fee_vnd = dict_get (fp_disbursement_fee_vnd fp) 0,
            disbursement_fee_pct = dict_get (fp_disbursement_fee_pct fp) 0,
            account_maintenance_fee_vnd = dict_get (fp_account_maintenance_fee_vnd fp) 0,
            insurance_annual_pct = dict_get (fp_insurance_annual_pct fp) 0,
            insurance_vnd = dict_get (fp_insurance_vnd fp) 0,
            insurance_basis = dict_get (fp_insurance_basis fp) ''on_balance'',
            property_value_vnd = 0,
            prepayment_schedule = dict_get (fp_prepayment_schedule fp) [] \<rparr>)"

definition build_prepay_info :: "Application \<Rightarrow> PrepaymentInfo option" where
  "build_prepay_info application =
     (if \<not> truthy_int (app_expected_prepayment_month application) then None
      else Some \<lparr> prepayment_month = app_expected_prepayment_month application,
                  prepayment_amount_vnd =
                    (if truthy_real (app_expected_prepayment_amount_vnd application)
                     then app_expected_prepayment_amount_vnd application else None),
                  is_partial = (app_expected_prepayment_amount_vnd application \<noteq> None) \<rparr>)"

definition get_repayment_method :: "LoanProduct \<Rightarrow> string" where
  "get_repayment_method product = dict_get (prod_repayment_method product) ''annuity''"

definition get_grace_months :: "LoanProduct \<Rightarrow> int" where
  "get_grace_months product = dict_get (prod_grace_principal_months product) 0"

text \<open>The dict of scores.\<close>

record Scores =
  sc_total :: real
  sc_cost :: real
  sc_stability :: real
  sc_approval :: real
  sc_speed :: real
  sc_penalties :: real

definition calculate_cost_score :: "LoanCostSummary option \<Rightarrow> real \<Rightarrow> real" where
  "calculate_cost_score scenario principal_vnd =
     (case scenario of
        None \<Rightarrow> 50
      | Some s \<Rightarrow>
          (let apr_pct = lcs_apr s * 100;
               apr_score = max 0 (min 100 (100 - (apr_pct - 8) * (100 / 7)));
               cost_ratio = (if principal_vnd > 0
                             then lcs_total_cost_excluding_principal s / principal_vnd else 0);
               cost_score = max 0 (min 100 (100 - (cost_ratio - 10 / 100) * (100 / (40 / 100))))
           in (apr_score + cost_score) / 2))"

definition calculate_approval_score :: "LoanProduct \<Rightarrow> Application \<Rightarrow> Metrics \<Rightarrow> real" where
  "calculate_approval_score product application metrics =
     (let score = 70;
          score = (case (prod_max_dsr product, met_dsr metrics) of
                     (Some max_dsr, Some dsr) \<Rightarrow>
                        if max_dsr \<noteq> 0
                        then score + (if max_dsr > 0 then (max_dsr - dsr) / max_dsr else 0) * 15
                        else score
                   | _ \<Rightarrow> score);
          max_ltv = (if truthy_real (prod_hard_max_ltv product) then prod_hard_max_ltv product
                     else if truthy_real (prod_max_ltv_pct product)
                     then Some (the (prod_max_ltv_pct product) / 100)
                     else None);
          score = (case (max_ltv, met_ltv metrics) of
                     (Some max_ltv_v, Some ltv) \<Rightarrow>
                        if max_ltv_v \<noteq> 0
                        then score + (if max_ltv_v > 0 then (max_ltv_v - ltv) / max_ltv_v else 0) * 10
                        else score
                   | _ \<Rightarrow> score);
          score = score + (case app_proof_strength application of
                             None \<Rightarrow> 0
                           | Some strength \<Rightarrow>
                               if strength = ''STRONG'' then 10
                               else if strength = ''MEDIUM'' then 5
                               else if strength = ''WEAK'' then - 5
                               else 0);
          score = (if app_has_late_payments application then score - 15 else score);
          score = (if app_cic_bad_debt application then score - 25 else score)
      in max 0 (min 100 score))"

definition calculate_penalties_score ::
  "LoanProduct \<Rightarrow> Application \<Rightarrow> LoanCostSummary option \<Rightarrow> real" where
  "calculate_penalties_score product application scenario =
     (case scenario of
        None \<Rightarrow> 80
      | Some s \<Rightarrow>
          if \<not> truthy_int (app_expected_prepayment_month application) then 80
          else if app_loan_amount application \<le> 0 then 80
          else (let fee_pct_v = lcs_prepayment_fee s / app_loan_amount application * 100
                in max 0 (min 100 (100 - fee_pct_v * (100 / 3)))))"

text \<open>\<open>_calculate_multi_factor_score\<close>. The speed score reads the clock, so the day of
  the run is an argument here and of every function that calls this one.\<close>

definition calculate_multi_factor_score ::
  "int \<Rightarrow> LoanProduct \<Rightarrow> Application \<Rightarrow> Metrics \<Rightarrow> UserInput
     \<Rightarrow> (string \<times> LoanCostSummary) list \<Rightarrow> py_error + Scores" where
  "calculate_multi_factor_score today product application metrics user_input scenarios =
     (let base_scenario = map_of scenarios ''+0%'';
          stress_4pct = map_of scenarios ''+4%'';
          cost_score = calculate_cost_score base_scenario (app_loan_amount application)
      in case calculate_stability_score product base_scenario stress_4pct user_input of
           Inl e \<Rightarrow> Inl e
         | Inr stability_score \<Rightarrow>
            (let approval_score = calculate_approval_score product application metrics;
                 speed_score = calculate_speed_score today product application;
                 penalties_score = calculate_penalties_score product application base_scenario;
                 total = 35 / 100 * cost_score + 25 / 100 * stability_score
                         + 20 / 100 * approval_score + 10 / 100 * speed_score
                         + 10 / 100 * penalties_score
             in Inr \<lparr> sc_total = total, sc_cost = cost_score, sc_stability = stability_score,
                      sc_approval = approval_score, sc_speed = speed_score,
                      sc_penalties = penalties_score \<rparr>))"

fun get_prepay_fee_at_month :: "PrepaymentTier list \<Rightarrow> int \<Rightarrow> real" where
  "get_prepay_fee_at_month [] month = 0"
| "get_prepay_fee_at_month (tier # rest) month =
     (if month \<ge> dict_get (months_from tier) 0
         \<and> (case months_to tier of None \<Rightarrow> True | Some t \<Rightarrow> month \<le> t)
      then dict_get (fee_pct tier) 0
      else get_prepay_fee_at_month rest month)"

definition calculate_early_exit_penalties_score ::
  "LoanProduct \<Rightarrow> Application \<Rightarrow> LoanCostSummary option \<Rightarrow> real" where
  "calculate_early_exit_penalties_score product application scenario =
     (case prod_fees_penalties product of
        None \<Rightarrow> 80
      | Some fp \<Rightarrow>
          (let schedule = dict_get (fp_prepayment_schedule fp) []
           in if schedule = [] then 80
              else (let fee_at_12m = get_prepay_fee_at_month schedule 12;
                        fee_at_24m = get_prepay_fee_at_month schedule 24;
                        fee_at_36m = get_prepay_fee_at_month schedule 36;
                        avg_fee = (fee_at_12m + fee_at_24m + fee_at_36m) / 3
                    in max 0 (min 100 (100 - avg_fee * (100 / 3))))))"

definition calculate_long_hold_stability_score ::
  "LoanProduct \<Rightarrow> LoanCostSummary option \<Rightarrow> LoanCostSummary option \<Rightarrow> real" where
  "calculate_long_hold_stability_score product base stress =
     (case (base, stress) of
        (Some b, Some s) \<Rightarrow>
          (let score = 50;
               margin = floating_margin_pct (build_rate_structure product);
               margin_score = max 0 (min 100 (100 - (margin - 1) * (100 / 3)));
               score = score + margin_score * (3 / 10);
               score = (case prod_rate_model product of
                          None \<Rightarrow> score
                        | Some rm \<Rightarrow>
                            (let score = (if rm_reference_rate_source_url rm
                                          then score + 10 else score)
                             in if rm_caps_floors rm then score + 10 else score));
               score = (if lcs_monthly_payment_first_12m b > 0
                        then (let volatility =
                                    (lcs_monthly_payment_post_promo s
                                       - lcs_monthly_payment_first_12m b)
                                    / lcs_monthly_payment_first_12m b;
                                  volatility_score = max 0 (min 100 (100 - volatility * 500))
                              in score + volatility_score * (3 / 10))
                        else score)
           in min 100 (max 0 score))
      | _ \<Rightarrow> 50)"

text \<open>\<open>_calculate_strategy_adjusted_score\<close>: the weights in the order cost, stability,
  approval, speed, penalties; the dict \<open>base_scores\<close> is updated in place and returned
  with the new total.\<close>

definition calculate_strategy_adjusted_score ::
  "Scores \<Rightarrow> Application \<Rightarrow> LoanProduct \<Rightarrow> (string \<times> LoanCostSummary) list \<Rightarrow> Scores" where
  "calculate_strategy_adjusted_score base_scores application product scenarios =
     (let strategy = app_repayment_strategy application;
          weights = (if strategy = Some ''UNCERTAIN''
                     then (30 / 100, 20 / 100, 20 / 100, 10 / 100, 20 / 100)
                     else if strategy = Some ''EARLY_EXIT''
                     then (25 / 100, 10 / 100, 20 / 100, 15 / 100, 30 / 100)
                     else if strategy = Some ''LONG_HOLD''
                     then (35 / 100, 35 / 100, 20 / 100, 5 / 100, 5 / 100)
                     else (35 / 100, 25 / 100, 20 / 100, 10 / 100, 10 / 100));
          base_scores =
            (if strategy = Some ''EARLY_EXIT''
             then base_scores \<lparr> sc_penalties :=
                    calculate_early_exit_penalties_score product application
                      (map_of scenarios ''+0%'') \<rparr>
             else if strategy = Some ''LONG_HOLD''
             then base_scores \<lparr> sc_stability :=
                    calculate_long_hold_stability_score product
                      (map_of scenarios ''+0%'') (map_of scenarios ''+4%'') \<rparr>
             else base_scores)
      in case weights of
           (w_cost, w_stability, w_approval, w_speed, w_penalties) \<Rightarrow>
             base_scores \<lparr> sc_total :=
                w_cost * sc_cost base_scores + w_stability * sc_stability base_scores
                + w_approval * sc_approval base_scores + w_speed * sc_speed base_scores
                + w_penalties * sc_penalties base_scores \<rparr>)"

record PrepaymentAtPromoEnd =
  pe_prepayment_month :: int
  pe_remaining_principal :: real
  pe_prepayment_fee :: real
  pe_total_interest_paid :: real
  pe_total_fees_paid :: real
  pe_total_cost_to_exit :: real

text \<open>The loop over the payments of the schedule without prepayment in
  \<open>_calculate_prepayment_at_promo_end\<close>, with its three accumulators.\<close>

fun promo_end_loop ::
  "int \<Rightarrow> MonthlyPayment list \<Rightarrow> real \<times> real \<times> real \<Rightarrow> real \<times> real \<times> real" where
  "promo_end_loop fixed_months_v [] acc = acc"
| "promo_end_loop fixed_months_v (p # ps) (remaining_at_promo_end, interest_to_promo_end,
       fees_to_promo_end) =
     (if mp_month p \<le> fixed_months_v
      then promo_end_loop fixed_months_v ps
             (mp_remaining_balance p, interest_to_promo_end + mp_interest p,
              fees_to_promo_end + mp_fees p)
      else promo_end_loop fixed_months_v ps
             (remaining_at_promo_end, interest_to_promo_end, fees_to_promo_end))"

text \<open>\<open>_calculate_prepayment_at_promo_end\<close> generates two schedules, so it raises what
  \<open>generate_amortization_schedule\<close> raises. What it computes from the first schedule
  and then overwrites is left out.\<close>

definition calculate_prepayment_at_promo_end ::
  "LoanProduct \<Rightarrow> Application \<Rightarrow> RateStructure \<Rightarrow> FeeStructure \<Rightarrow> int option
     \<Rightarrow> py_error + PrepaymentAtPromoEnd option" where
  "calculate_prepayment_at_promo_end product application rate_structure fee_structure
       effective_tenor =
     (let fixed_months_v = fixed_months rate_structure
      in if fixed_months_v \<le> 0 then Inr None
         else
          (let principal_vnd = app_loan_amount application;
               tenor_months = or_int effective_tenor (or_int (app_tenor_months application) 240);
               args = \<lparr> arg_principal = principal_vnd, arg_tenor_months = tenor_months,
                        arg_rate_structure = rate_structure,
                        arg_repayment_method = get_repayment_method product,
                        arg_grace_principal_months = get_grace_months product,
                        arg_grace_interest_months = 0,
                        arg_fee_structure = Some fee_structure,
                        arg_prepayment_info =
                          Some \<lparr> prepayment_month = Some fixed_months_v,
                                 prepayment_amount_vnd = None, is_partial = False \<rparr>,
                        arg_scenario_bump = 0 \<rparr>
           in case generate_amortization_schedule args of
                Inl e \<Rightarrow> Inl e
              | Inr schedule \<Rightarrow>
                  if payments schedule = [] then Inr None
                  else
                   (case generate_amortization_schedule (args \<lparr> arg_prepayment_info := None \<rparr>) of
                      Inl e \<Rightarrow> Inl e
                    | Inr schedule_no_prepay \<Rightarrow>
                       (let upfront_fees = calculate_upfront_fees principal_vnd fee_structure
                        in case promo_end_loop fixed_months_v (payments schedule_no_prepay)
                                  (principal_vnd, 0, upfront_fees) of
                             (remaining_at_promo_end, interest_to_promo_end, fees_to_promo_end) \<Rightarrow>
                              (let prepay_fee = calculate_prepayment_fee_sched
                                      remaining_at_promo_end fixed_months_v
                                      (prepayment_schedule fee_structure)
                               in Inr (Some
                                    \<lparr> pe_prepayment_month = fixed_months_v,
                                      pe_remaining_principal = remaining_at_promo_end,
                                      pe_prepayment_fee = prepay_fee,
                                      pe_total_interest_paid = interest_to_promo_end,
                                      pe_total_fees_paid = fees_to_promo_end,
                                      pe_total_cost_to_exit =
                                        remaining_at_promo_end + interest_to_promo_end
                                        + fees_to_promo_end + prepay_fee \<rparr>))))))"

text \<open>Python's \<open>int(round(x))\<close>: to the nearest integer, a tie to the even one.\<close>

definition py_round :: "real \<Rightarrow> int" where
  "py_round x =
     (let f = \<lfloor>x\<rfloor>; d = x - real_of_int f
      in if d < 1 / 2 then f
         else if d > 1 / 2 then f + 1
         else if even f then f else f + 1)"

definition bucket_from_score :: "real \<Rightarrow> string" where
  "bucket_from_score score =
     (if score \<ge> 75 then ''HIGH'' else if score \<ge> 50 then ''MEDIUM'' else ''LOW'')"

text \<open>Of a \<open>ProductRecommendation\<close>: the product, the scores and the numbers computed
  for it. The fields that are texts or copies of columns of the product (names,
  explanations, next steps, assumptions, rate details, scenario table, estimated costs) are
  left out. Of a \<open>RejectedProduct\<close>: the product, the reasons and the primary reason.\<close>

record ProductRecommendation =
  pr_product_id :: nat
  pr_fit_score :: int
  pr_approval_bucket :: string
  pr_approval_score :: real
  pr_cost_score :: real
  pr_stability_score :: real
  pr_speed_score :: real
  pr_penalties_score :: real
  pr_apr :: real
  pr_suggested_tenor_months :: int
  pr_prepayment_at_promo_end :: "PrepaymentAtPromoEnd option"

record RejectedProduct =
  rej_product_id :: nat
  rej_reasons :: "string list"
  rej_reason_code :: string

definition build_recommendation ::
  "LoanProduct \<Rightarrow> Scores \<Rightarrow> (string \<times> LoanCostSummary) list \<Rightarrow> LoanCostSummary option
     \<Rightarrow> Application \<Rightarrow> int \<Rightarrow> py_error + ProductRecommendation" where
  "build_recommendation product scores scenarios base_scenario application suggested_tenor =
     (let rate_structure = build_rate_structure product
      in case calculate_prepayment_at_promo_end product application rate_structure
                (build_fee_structure product) (Some suggested_tenor) of
           Inl e \<Rightarrow> Inl e
         | Inr prepayment_at_promo_end \<Rightarrow> Inr
            \<lparr> pr_product_id = prod_id product,
              pr_fit_score = py_round (sc_total scores),
              pr_approval_bucket = bucket_from_score (sc_approval scores),
              pr_approval_score = sc_approval scores,
              pr_cost_score = sc_cost scores,
              pr_stability_score = sc_stability scores,
              pr_speed_score = sc_speed scores,
              pr_penalties_score = sc_penalties scores,
              pr_apr = (case base_scenario of None \<Rightarrow> 0 | Some b \<Rightarrow> lcs_apr b),
              pr_suggested_tenor_months = suggested_tenor,
              pr_prepayment_at_promo_end = prepayment_at_promo_end \<rparr>)"

text \<open>The body of the loop \<open>for product in products\<close> of \<open>generate_recommendations\<close>:
  the product is rejected (\<open>Inl\<close>), or recommended with its total score (\<open>Inr\<close>).\<close>

definition evaluate_product ::
  "int \<Rightarrow> Application \<Rightarrow> Metrics \<Rightarrow> UserInput \<Rightarrow> LoanProduct
     \<Rightarrow> py_error + (RejectedProduct + ProductRecommendation \<times> real)" where
  "evaluate_product today application metrics user_input product =
     (let optimal_tenor = get_optimal_tenor application product;
          effective_tenor = (if truthy_int (app_tenor_months application)
                             then the (app_tenor_months application) else optimal_tenor)
      in case apply_hard_filters_with_tenor application metrics product user_input
                effective_tenor of
           (passes, reasons) \<Rightarrow>
            if \<not> passes
            then Inr (Inl \<lparr> rej_product_id = prod_id product, rej_reasons = reasons,
                            rej_reason_code = primary_reason reasons \<rparr>)
            else
             (let rate_structure = build_rate_structure product;
                  fee_structure = build_fee_structure product;
                  prepay_info = build_prepay_info application;
                  horizon = (if app_repayment_strategy application = Some ''EARLY_EXIT''
                             then or_int (app_planned_hold_months application) 36
                             else or_int (app_planned_hold_months application) effective_tenor)
              in case stress_test_scenarios
                        \<lparr> st_principal = app_loan_amount application,
                          st_tenor_months = effective_tenor,
                          st_rate_structure = rate_structure,
                          st_repayment_method = get_repayment_method product,
                          st_grace_principal_months = get_grace_months product,
                          st_fee_structure = Some fee_structure,
                          st_prepayment_info = prepay_info,
                          st_horizon_months = Some horizon \<rparr> of
                   Inl e \<Rightarrow> Inl e
                 | Inr scenarios \<Rightarrow>
                    (case calculate_multi_factor_score today product application metrics
                            user_input scenarios of
                       Inl e \<Rightarrow> Inl e
                     | Inr base_scores \<Rightarrow>
                        (let scores = calculate_strategy_adjusted_score base_scores application
                                        product scenarios;
                             base_scenario = map_of scenarios ''+0%''
                         in case build_recommendation product scores scenarios base_scenario
                                   application optimal_tenor of
                              Inl e \<Rightarrow> Inl e
                            | Inr recommendation \<Rightarrow>
                                Inr (Inr (recommendation, sc_total scores))))))"




section \<open>Sample inputs\<close>


text \<open>A three-month equal-principal loan, prepaid in month 2; the prepayment is marked
  partial, with an amount of 100.\<close>

definition prepaid_loan :: ScheduleArgs where
  "prepaid_loan =
     \<lparr> arg_principal = 1200, arg_tenor_months = 3,
       arg_rate_structure = \<lparr> fixed_rate_pct = 12, fixed_months = 1,
                               floating_margin_pct = 3, reference_rate_pct = 9 \<rparr>,
       arg_repayment_method = ''equal_principal'',
       arg_grace_principal_months = 0, arg_grace_interest_months = 0,
       arg_fee_structure = None,
       arg_prepayment_info = Some \<lparr> prepayment_month = Some 2,
                                     prepayment_amount_vnd = Some 100, is_partial = True \<rparr>,
       arg_scenario_bump = 0 \<rparr>"

text \<open>A loan without principal: a degenerate input.\<close>

definition zero_principal_loan :: ScheduleArgs where
  "zero_principal_loan = prepaid_loan \<lparr> arg_principal := 0 \<rparr>"


text \<open>A cashflow vector of 1024 entries: 1 received, 1000 paid after a month, then
  nothing.\<close>

definition long_cashflows :: "real list" where
  "long_cashflows = 1 # - 1000 # replicate 1022 0"



text \<open>Scenario 4: a product asking for a monthly income of 15,000,000, and an applicant
  earning 10,000,000.\<close>

definition salaried_applicant :: Application where
  "salaried_applicant =
     \<lparr> app_purpose = ''NEW_PURCHASE'', app_loan_amount = 2000000000,
       app_tenor_months = Some 240, app_repayment_strategy = Some ''UNCERTAIN'',
       app_planned_hold_months = None, app_expected_prepayment_month = None,
       app_expected_prepayment_amount_vnd = None,
       app_income_type = Some ''SALARY'', app_monthly_income_vnd = Some 10000000,
       app_proof_strength = Some ''MEDIUM'',
       app_existing_debts_monthly_payment_vnd = Some 3000000,
       app_has_late_payments = False, app_cic_bad_debt = False,
       app_estimated_property_value_vnd = Some 4000000000,
       app_priority_cost_vs_stability = None,
       app_incomes = [], app_debts = [], app_collaterals = [(''HOUSE'', 4000000000)],
       app_geo_location = Some ''HCM'', app_need_disbursement_by_date = Some 40 \<rparr>"

definition applicant_metrics :: Metrics where
  "applicant_metrics =
     \<lparr> met_total_income = Some 10000000, met_dsr = Some (3 / 10), met_ltv = Some (1 / 2) \<rparr>"

definition applicant_input :: UserInput where
  "applicant_input = \<lparr> ui_property_value = 4000000000, ui_priority_cost_vs_stability = 50 \<rparr>"

definition home_loan :: LoanProduct where
  "home_loan =
     \<lparr> prod_id = 1, prod_purpose = Some ''HOME_PURCHASE'',
       prod_min_term_months = Some 12, prod_max_term_months = Some 300,
       prod_max_ltv_pct = Some 70,
       prod_min_loan_amount = Some 100000000, prod_max_loan_amount = Some 5000000000,
       prod_income_type_supported = [''SALARY'', ''BUSINESS''],
       prod_min_income_vnd = Some 15000000,
       prod_collateral_types = [''HOUSE'', ''APT''],
       prod_coverage_provinces = [''HCM'', ''HN''],
       prod_max_dsr = Some (1 / 2), prod_hard_max_ltv = None,
       prod_rate_fixed = Some 7, prod_rate_fixed_months = Some 24,
       prod_floating_margin = Some 3, prod_rate_model = None, prod_fees_penalties = None,
       prod_repayment_method = None, prod_grace_principal_months = None,
       prod_sla_days_estimate = Some 30, prod_processing_sla = None \<rparr>"

text \<open>Two scenario summaries with the same average payment of 10,000,000 in the first
  year (base) and after the fixed period (stress).\<close>

definition flat_summary :: LoanCostSummary where
  "flat_summary =
     \<lparr> lcs_total_interest = 0, lcs_total_fees = 0, lcs_total_insurance = 0,
       lcs_total_cost_excluding_principal = 0, lcs_total_out_of_pocket = 0,
       lcs_apr = 8 / 100,
       lcs_monthly_payment_first_12m = 10000000, lcs_monthly_payment_post_promo = 10000000,
       lcs_prepayment_fee = 0 \<rparr>"



section \<open>Notions used in the proofs\<close>





text \<open>The geometric sum \<open>1 + (1 + i) + \<dots> + (1 + i) ^ (n - 1)\<close>: the principal part of
  an annuity payment is the balance divided by it. And the sum
  \<open>1 / (1 + i) + \<dots> + 1 / (1 + i) ^ n\<close>: the payment is the balance divided by it.\<close>

definition geo :: "real \<Rightarrow> nat \<Rightarrow> real" where
  "geo i n = (\<Sum>k<n. (1 + i) ^ k)"






text \<open>The part of the balance that is left after month \<open>m\<close> at the monthly rate \<open>i\<close>,
  and the payment of that month (interest plus principal paid) as a part of the
  balance.\<close>

definition keep_fraction :: "ScheduleArgs \<Rightarrow> int \<Rightarrow> real \<Rightarrow> real" where
  "keep_fraction a m i =
     (if m \<le> arg_grace_principal_months a then 1
      else if arg_repayment_method a = ''equal_principal''
      then 1 - 1 / real_of_int (arg_tenor_months a - m + 1)
      else if 0 \<le> i then 1 - 1 / geo i (nat (arg_tenor_months a - m + 1))
      else max 0 (1 - 1 / real_of_int (arg_tenor_months a - m + 1) + i))"

definition pay_fraction :: "ScheduleArgs \<Rightarrow> int \<Rightarrow> real \<Rightarrow> real" where
  "pay_fraction a m i = i + 1 - keep_fraction a m i"






section \<open>Degenerate inputs\<close>

text \<open>
  C9. A call of \<open>generate_amortization_schedule\<close> with \<open>principal \<le> 0\<close> or
  \<open>tenor_months \<le> 0\<close> returns the empty schedule: no payment entries and every running
  total equal to 0. It returns (\<open>Inr\<close>): no exception is raised on such a call.
\<close>

theorem degenerate_inputs_empty_schedule:
  assumes "arg_principal a \<le> 0 \<or> arg_tenor_months a \<le> 0"
  shows "generate_amortization_schedule a =
           Inr \<lparr> payments = [], total_interest = 0, total_principal = 0, total_payments = 0,
                 total_fees = 0, total_insurance = 0 \<rparr>"
  using assms by (simp add: generate_amortization_schedule_def)

theorem degenerate_inputs_empty_schedule_witness:
  "(arg_principal zero_principal_loan \<le> 0 \<or> arg_tenor_months zero_principal_loan \<le> 0)
   \<and> generate_amortization_schedule zero_principal_loan =
           Inr \<lparr> payments = [], total_interest = 0, total_principal = 0, total_payments = 0,
                 total_fees = 0, total_insurance = 0 \<rparr>"
proof -
  have h: "arg_principal zero_principal_loan \<le> 0 \<or> arg_tenor_months zero_principal_loan \<le> 0"
    by (simp add: zero_principal_loan_def)
  show ?thesis using h degenerate_inputs_empty_schedule [OF h] by simp
qed

section \<open>Calls that return\<close>











section \<open>The annuity payment\<close>










section \<open>One month of the loop\<close>




section \<open>The prepayment month\<close>








section \<open>The remaining balance\<close>







section \<open>The eligibility filter: passing and the primary reason\<close>

lemma other_checks_not_income:
  "''INCOME_BELOW_MIN'' \<notin> set (check_purpose application product)"
  "''INCOME_BELOW_MIN'' \<notin> set (check_term_min product t)"
  "''INCOME_BELOW_MIN'' \<notin> set (check_term_max product t)"
  "''INCOME_BELOW_MIN'' \<notin> set (check_ltv application product user_input)"
  "''INCOME_BELOW_MIN'' \<notin> set (check_amount_min application product)"
  "''INCOME_BELOW_MIN'' \<notin> set (check_amount_max application product)"
  "''INCOME_BELOW_MIN'' \<notin> set (check_income_type application product)"
  "''INCOME_BELOW_MIN'' \<notin> set (check_collateral application product)"
  "''INCOME_BELOW_MIN'' \<notin> set (check_geo application product)"
  "''INCOME_BELOW_MIN'' \<notin> set (check_dsr metrics product)"
  by (simp_all add: check_purpose_def check_term_min_def check_term_max_def check_ltv_def
        check_amount_min_def check_amount_max_def check_income_type_def
        check_collateral_def check_geo_def check_dsr_def split: option.splits)

lemma only_code_empty:
  "c \<notin> set xs \<Longrightarrow> \<forall>r \<in> set xs. r = c \<Longrightarrow> xs = []"
  by (cases xs) auto

text \<open>
  C7. The filter returns \<open>passes = True\<close> exactly when its list of rejection reasons is
  empty. When the product asks for a minimum income of 15,000,000 and the applicant's
  total income is 10,000,000, the candidate does not pass and \<open>INCOME_BELOW_MIN\<close> is
  among the reasons; when every other check passes, so that no other code is in the list,
  the list is \<open>[INCOME_BELOW_MIN]\<close> and that code is the primary reason.
\<close>

theorem hard_filter_passes_iff_no_reasons:
  "fst (apply_hard_filters_with_tenor application metrics product user_input effective_tenor)
     = (snd (apply_hard_filters_with_tenor application metrics product user_input effective_tenor) = [])
   \<and> (prod_min_income_vnd product = Some 15000000 \<and> met_total_income metrics = Some 10000000
        \<longrightarrow> \<not> fst (apply_hard_filters_with_tenor application metrics product user_input effective_tenor)
          \<and> ''INCOME_BELOW_MIN'' \<in> set (snd (apply_hard_filters_with_tenor application metrics product user_input effective_tenor))
          \<and> ((\<forall>r \<in> set (snd (apply_hard_filters_with_tenor application metrics product user_input effective_tenor)).
                 r = ''INCOME_BELOW_MIN'')
              \<longrightarrow> snd (apply_hard_filters_with_tenor application metrics product user_input effective_tenor)
                    = [''INCOME_BELOW_MIN'']
                \<and> primary_reason (snd (apply_hard_filters_with_tenor application metrics product user_input effective_tenor))
                    = ''INCOME_BELOW_MIN''))"
proof -
  let ?R = "apply_hard_filters_with_tenor application metrics product user_input effective_tenor"
  let ?pre = "check_purpose application product
                  @ check_term_min product effective_tenor
                  @ check_term_max product effective_tenor
                  @ check_ltv application product user_input
                  @ check_amount_min application product
                  @ check_amount_max application product
                  @ check_income_type application product"
  let ?post = "check_collateral application product
                  @ check_geo application product
                  @ check_dsr metrics product"
  have R: "snd ?R = ?pre @ check_min_income metrics product @ ?post"
    by (simp add: apply_hard_filters_with_tenor_def Let_def)
  have 1: "fst ?R = (snd ?R = [])"
    by (simp add: apply_hard_filters_with_tenor_def Let_def)
  have pre: "''INCOME_BELOW_MIN'' \<notin> set ?pre" and post: "''INCOME_BELOW_MIN'' \<notin> set ?post"
    using other_checks_not_income by simp_all
  {
    assume inc: "prod_min_income_vnd product = Some 15000000"
                "met_total_income metrics = Some 10000000"
    have mi: "check_min_income metrics product = [''INCOME_BELOW_MIN'']"
      using inc by (simp add: check_min_income_def truthy_real_def)
    have a: "''INCOME_BELOW_MIN'' \<in> set (snd ?R)" using R mi by simp
    then have b: "\<not> fst ?R" using 1 by auto
    {
      assume only: "\<forall>r \<in> set (snd ?R). r = ''INCOME_BELOW_MIN''"
      have "?pre = []" by (rule only_code_empty[OF pre]) (use only R in auto)
      moreover have "?post = []" by (rule only_code_empty[OF post]) (use only R in auto)
      ultimately have "snd ?R = [''INCOME_BELOW_MIN'']" using R mi by simp
      then have "snd ?R = [''INCOME_BELOW_MIN''] \<and> primary_reason (snd ?R) = ''INCOME_BELOW_MIN''"
        by (simp add: primary_reason_def)
    }
    then have "\<not> fst ?R \<and> ''INCOME_BELOW_MIN'' \<in> set (snd ?R)
       \<and> ((\<forall>r \<in> set (snd ?R). r = ''INCOME_BELOW_MIN'')
              \<longrightarrow> snd ?R = [''INCOME_BELOW_MIN''] \<and> primary_reason (snd ?R) = ''INCOME_BELOW_MIN'')"
      using a b by blast
  }
  then show ?thesis using 1 by blast
qed

theorem hard_filter_passes_iff_no_reasons_witness:
  "prod_min_income_vnd home_loan = Some 15000000
   \<and> met_total_income applicant_metrics = Some 10000000
   \<and> snd (apply_hard_filters_with_tenor salaried_applicant applicant_metrics home_loan
             applicant_input 240) = [''INCOME_BELOW_MIN'']
   \<and> \<not> fst (apply_hard_filters_with_tenor salaried_applicant applicant_metrics home_loan
             applicant_input 240)
   \<and> primary_reason (snd (apply_hard_filters_with_tenor salaried_applicant applicant_metrics
             home_loan applicant_input 240)) = ''INCOME_BELOW_MIN''"
proof -
  let ?R = "apply_hard_filters_with_tenor salaried_applicant applicant_metrics home_loan
             applicant_input 240"
  have h1: "prod_min_income_vnd home_loan = Some 15000000"
    by (simp add: home_loan_def)
  have h2: "met_total_income applicant_metrics = Some 10000000"
    by (simp add: applicant_metrics_def)
  have h3: "\<forall>r \<in> set (snd ?R). r = ''INCOME_BELOW_MIN''"
    by (simp add: apply_hard_filters_with_tenor_def Let_def check_purpose_def
        check_term_min_def check_term_max_def check_ltv_def check_amount_min_def
        check_amount_max_def check_income_type_def check_min_income_def check_collateral_def
        check_geo_def check_dsr_def salaried_applicant_def applicant_metrics_def home_loan_def
        app_collateral_types_def
        applicant_input_def truthy_int_def truthy_real_def purpose_matches_def)
  show ?thesis
    using h1 h2 h3
      hard_filter_passes_iff_no_reasons [of salaried_applicant applicant_metrics home_loan
        applicant_input 240]
    by blast
qed

section \<open>The stability score\<close>

text \<open>
  C4, at a failing input. The product has a fixed period of 24 months and no promo
  options, the average payment after the fixed period under +4% equals the base average
  of the first year, and the preference is the default 50. Both parts of the blend are
  100, their weights are 0.85 and 0.5, and \<open>_calculate_stability_score\<close> returns 135.
\<close>

theorem stability_score_above_100:
  "calculate_stability_score home_loan (Some flat_summary) (Some flat_summary) applicant_input
     = Inr 135"
  by (simp add: calculate_stability_score_def prod_promo_fixed_months_def home_loan_def
        flat_summary_def applicant_input_def Let_def)


section \<open>The recommendation run and the clock\<close>

text \<open>The speed score of a recommendation is \<open>calculate_speed_score\<close> on the day of the
  run: the strategy adjustment leaves it as it is.\<close>

lemma strategy_adjusted_speed:
  "sc_speed (calculate_strategy_adjusted_score base_scores application product scenarios)
     = sc_speed base_scores"
  by (simp add: calculate_strategy_adjusted_score_def Let_def split: prod.splits)

lemma multi_factor_speed:
  assumes "calculate_multi_factor_score today product application metrics user_input scenarios
             = Inr scores"
  shows "sc_speed scores = calculate_speed_score today product application"
  using assms by (auto simp: calculate_multi_factor_score_def Let_def split: sum.splits)

lemma build_recommendation_speed:
  assumes "build_recommendation product scores scenarios base_scenario application t = Inr r"
  shows "pr_speed_score r = sc_speed scores"
  using assms by (auto simp: build_recommendation_def Let_def split: sum.splits)

lemma evaluate_product_speed_score:
  assumes "evaluate_product today application metrics user_input product = Inr (Inr (r, s))"
  shows "pr_speed_score r = calculate_speed_score today product application"
  using assms unfolding evaluate_product_def Let_def
  by (auto split: prod.splits if_splits sum.splits
        simp: build_recommendation_speed strategy_adjusted_speed multi_factor_speed)














section \<open>A prepayment truncates the schedule\<close>










section \<open>The Newton-Raphson loop\<close>

lemma py_float_pow_in_range:
  assumes "1 / 2 \<le> b" "b \<le> 2" "n \<le> 1023"
  shows "py_float_pow b n = Inr (b ^ n)" and "b ^ n \<noteq> 0"
proof -
  have b0: "0 < b" using assms(1) by simp
  have up: "b ^ n \<le> 2 ^ 1023"
  proof -
    have "b ^ n \<le> 2 ^ n" using assms(2) b0 by (intro power_mono) auto
    also have "\<dots> \<le> (2::real) ^ 1023" using assms(3) by (intro power_increasing) auto
    finally show ?thesis .
  qed
  have lo: "(1 / 2) ^ 1023 \<le> b ^ n"
  proof -
    have "(1 / 2 :: real) ^ 1023 \<le> (1 / 2) ^ n"
      using assms(3) by (intro power_decreasing) auto
    also have "\<dots> \<le> b ^ n" using assms(1) by (intro power_mono) auto
    finally show ?thesis .
  qed
  have pos: "0 < b ^ n" using b0 by simp
  have "(2::real) ^ 1023 < 2 ^ 1024" by (intro power_strict_increasing) auto
  then have 1: "\<not> 2 ^ 1024 \<le> \<bar>b ^ n\<bar>" using up pos by linarith
  have "(1::real) / 2 ^ 1075 < (1 / 2) ^ 1023"
    unfolding power_one_over by (intro divide_strict_left_mono power_strict_increasing) auto
  then have 2: "\<not> \<bar>b ^ n\<bar> \<le> 1 / 2 ^ 1075" using lo pos by linarith
  show "py_float_pow b n = Inr (b ^ n)" using 1 2 unfolding py_float_pow_def by presburger
  show "b ^ n \<noteq> 0" using pos by linarith
qed

lemma npv_loop_no_error:
  assumes "- (1 / 2) \<le> rate" "rate \<le> 1"
  shows "t + length cfs \<le> 1023 \<Longrightarrow> \<exists>r. npv_loop rate t cfs acc = Inr r"
proof (induction cfs arbitrary: t acc)
  case Nil
  then show ?case by simp
next
  case (Cons cf cfs)
  obtain npv d where acc: "acc = (npv, d)" by (cases acc)
  have b: "1 / 2 \<le> 1 + rate" "1 + rate \<le> 2" using assms by simp_all
  have t: "t \<le> 1023" "Suc t \<le> 1023" using Cons.prems by simp_all
  note p0 = py_float_pow_in_range[OF b t(1)]
  note p1 = py_float_pow_in_range[OF b t(2)]
  have IH: "\<exists>r. npv_loop rate (Suc t) cfs acc' = Inr r" for acc'
    using Cons.IH[of "Suc t" acc'] Cons.prems by simp
  have "npv_loop rate t (cf # cfs) (npv, d)
          = npv_loop rate (Suc t) cfs
              (npv + cf / (1 + rate) ^ t,
               if t > 0 then d - real t * cf / (1 + rate) ^ Suc t else d)"
    using p0(2) p1(2) by (simp add: p0(1) p1(1) py_float_div_def del: power_Suc)
  then show ?case using IH unfolding acc by metis
qed

lemma irr_iteration_clamped:
  "irr_iteration cashflows tolerance rate = Inr (Continue r)
     \<or> irr_iteration cashflows tolerance rate = Inr (Return r)
   \<Longrightarrow> - (1 / 2) \<le> r \<and> r \<le> 1"
  by (auto simp: irr_iteration_def Let_def split: sum.splits prod.splits if_splits)

lemma irr_iteration_no_error:
  assumes "- (1 / 2) \<le> rate" "rate \<le> 1" "length cashflows \<le> 1023"
  shows "\<exists>out. irr_iteration cashflows tolerance rate = Inr out"
proof -
  obtain r where "npv_loop rate 0 cashflows (0, 0) = Inr r"
    using npv_loop_no_error[OF assms(1,2), of 0 cashflows "(0, 0)"] assms(3) by auto
  then show ?thesis
    by (cases r) (simp add: irr_iteration_def Let_def)
qed

lemma irr_loop_bounded:
  assumes "length cashflows \<le> 1023"
  shows "- (1 / 2) \<le> rate \<Longrightarrow> rate \<le> 1 \<Longrightarrow>
     \<exists>r k'. irr_loop cashflows tolerance n rate k = Inr (r, k')
        \<and> - (1 / 2) \<le> r \<and> r \<le> 1 \<and> k' \<le> k + n"
proof (induction n arbitrary: rate k)
  case 0
  then show ?case by simp
next
  case (Suc n)
  obtain out where out: "irr_iteration cashflows tolerance rate = Inr out"
    using irr_iteration_no_error[OF Suc.prems assms] by blast
  show ?case
  proof (cases out)
    case Break
    then show ?thesis using out Suc.prems by simp
  next
    case (Return r)
    then show ?thesis using out irr_iteration_clamped[of cashflows tolerance rate r] by simp
  next
    case (Continue r)
    then have "- (1 / 2) \<le> r \<and> r \<le> 1"
      using out irr_iteration_clamped[of cashflows tolerance rate r] by simp
    then obtain r' k' where "irr_loop cashflows tolerance n r (Suc k) = Inr (r', k')"
        "- (1 / 2) \<le> r'" "r' \<le> 1" "k' \<le> Suc k + n"
      using Suc.IH[of r "Suc k"] by blast
    then show ?thesis using out Continue by simp
  qed
qed

text \<open>
  C6, as the code has it. For a cashflow vector of at most 1023 entries,
  \<open>calculate_irr\<close> makes at most 100 passes of its loop and returns, without raising, a
  monthly rate in \<open>[-0.5, 1.0]\<close>. For every vector: a rate computed by a pass is clamped
  to \<open>[-0.5, 1.0]\<close>; when the derivative is below \<open>1e-20\<close> in absolute value the loop
  ends with the rate it had; when the budget is used up the last rate is returned.
  (With 1024 entries or more, \<open>(1 + rate) ** (t + 1)\<close> can leave the range of a double.)
\<close>

theorem calculate_irr_bounded:
  assumes "length cashflows \<le> 1023"
  shows "(\<exists>r k. calculate_irr_counted cashflows 100 (1 / 10 ^ 10) = Inr (r, k)
            \<and> calculate_irr cashflows = Inr r
            \<and> - (1 / 2) \<le> r \<and> r \<le> 1 \<and> k \<le> 100)
       \<and> (irr_iteration cashflows tolerance rate = Inr (Continue r')
            \<or> irr_iteration cashflows tolerance rate = Inr (Return r')
          \<longrightarrow> - (1 / 2) \<le> r' \<and> r' \<le> 1)
       \<and> (irr_iteration cashflows tolerance rate = Inr Break
          \<longrightarrow> irr_loop cashflows tolerance (Suc n) rate j = Inr (rate, Suc j))
       \<and> irr_loop cashflows tolerance 0 rate j = Inr (rate, j)"
proof -
  have 1: "\<exists>r k. calculate_irr_counted cashflows 100 (1 / 10 ^ 10) = Inr (r, k)
            \<and> calculate_irr cashflows = Inr r
            \<and> - (1 / 2) \<le> r \<and> r \<le> 1 \<and> k \<le> 100"
  proof (cases "length cashflows < 2")
    case True
    then show ?thesis by (simp add: calculate_irr_counted_def calculate_irr_def)
  next
    case False
    obtain r k where "irr_loop cashflows (1 / 10 ^ 10) 100 (1 / 100) 0 = Inr (r, k)"
        "- (1 / 2) \<le> r" "r \<le> 1" "k \<le> 0 + 100"
      using irr_loop_bounded[OF assms, of "1 / 100" "1 / 10 ^ 10" 100 0] by auto
    then show ?thesis using False by (simp add: calculate_irr_counted_def calculate_irr_def)
  qed
  show ?thesis
    using 1 irr_iteration_clamped[of cashflows tolerance rate r'] by simp
qed

theorem calculate_irr_bounded_witness:
  "length [100, - 101 :: real] \<le> 1023
   \<and> (\<exists>r k. calculate_irr_counted [100, - 101] 100 (1 / 10 ^ 10) = Inr (r, k)
            \<and> calculate_irr [100, - 101] = Inr r
            \<and> - (1 / 2) \<le> r \<and> r \<le> 1 \<and> k \<le> 100)"
proof -
  have h: "length [100, - 101 :: real] \<le> 1023" by simp
  show ?thesis using h calculate_irr_bounded [OF h] by blast
qed

lemma py_float_pow_start:
  assumes "n \<le> 1024"
  shows "py_float_pow (101 / 100) n = Inr ((101 / 100) ^ n)" and "(101 / 100 :: real) ^ n \<noteq> 0"
proof -
  have "(101 / 100 :: real) ^ n \<le> (101 / 100) ^ 1024"
    using assms by (intro power_increasing) auto
  also have "\<dots> < 2 ^ 1024" by (intro power_strict_mono) auto
  finally have up: "(101 / 100 :: real) ^ n < 2 ^ 1024" .
  have lo: "(1::real) \<le> (101 / 100) ^ n" by (intro one_le_power) auto
  have "(1 :: real) / 2 ^ 1075 < 1" by simp
  then have 2: "\<not> \<bar>(101 / 100 :: real) ^ n\<bar> \<le> 1 / 2 ^ 1075" using lo by linarith
  have 1: "\<not> 2 ^ 1024 \<le> \<bar>(101 / 100 :: real) ^ n\<bar>" using up lo by linarith
  show "py_float_pow (101 / 100) n = Inr ((101 / 100) ^ n)"
    using 1 2 unfolding py_float_pow_def by presburger
  show "(101 / 100 :: real) ^ n \<noteq> 0" using lo by linarith
qed

lemma npv_loop_zeros_start:
  "1 \<le> t \<Longrightarrow> t + n \<le> 1024 \<Longrightarrow> npv_loop (1 / 100) t (replicate n 0) (x, y) = Inr (x, y)"
proof (induction n arbitrary: t)
  case 0
  then show ?case by simp
next
  case (Suc n)
  have t: "t \<le> 1024" "Suc t \<le> 1024" using Suc.prems by simp_all
  note p0 = py_float_pow_start[OF t(1)]
  note p1 = py_float_pow_start[OF t(2)]
  have "npv_loop (1 / 100) t (0 # replicate n 0) (x, y) = npv_loop (1 / 100) (Suc t) (replicate n 0) (x, y)"
    using p0(2) p1(2) Suc.prems(1) by (simp add: p0(1) p1(1) py_float_div_def del: power_Suc)
  then show ?case using Suc.IH[of "Suc t"] Suc.prems by simp
qed

lemma npv_loop_zeros_overflow:
  "1 \<le> t \<Longrightarrow> t + n = 1023 \<Longrightarrow> npv_loop 1 t (replicate (Suc n) 0) (x, y) = Inl OverflowError"
proof (induction n arbitrary: t)
  case 0
  then have t: "t = 1023" by simp
  have p0: "py_float_pow 2 1023 = Inr (2 ^ 1023)"
    by (rule py_float_pow_in_range) simp_all
  have p1: "py_float_pow 2 1024 = Inl OverflowError"
    by (simp add: py_float_pow_def)
  show ?case unfolding t by (simp add: p0 p1 py_float_div_def del: power_Suc)
next
  case (Suc n)
  have t: "t \<le> 1023" "Suc t \<le> 1023" using Suc.prems by simp_all
  have b: "1 / 2 \<le> (2::real)" "(2::real) \<le> 2" by simp_all
  note p0 = py_float_pow_in_range[OF b t(1)]
  note p1 = py_float_pow_in_range[OF b t(2)]
  have "npv_loop 1 t (0 # replicate (Suc n) 0) (x, y) = npv_loop 1 (Suc t) (replicate (Suc n) 0) (x, y)"
    using p0(2) p1(2) Suc.prems(1) by (simp add: p0(1) p1(1) py_float_div_def del: power_Suc)
  then show ?case using Suc.IH[of "Suc t"] Suc.prems by simp
qed

lemma first_pass:
  "irr_iteration long_cashflows (1 / 10 ^ 10) (1 / 100) = Inr (Continue 1)"
proof -
  have z: "npv_loop (1 / 100) (Suc (Suc 0)) (replicate 1022 0) (x, y) = Inr (x, y)" for x y
    by (rule npv_loop_zeros_start) simp_all
  have p: "py_float_pow (101 / 100) 0 = Inr 1"
          "py_float_pow (101 / 100) (Suc 0) = Inr (101 / 100)"
          "py_float_pow (101 / 100) (Suc (Suc 0)) = Inr (10201 / 10000)"
    using py_float_pow_start(1)[of 0] py_float_pow_start(1)[of "Suc 0"]
      py_float_pow_start(1)[of "Suc (Suc 0)"]
    by simp_all
  have "npv_loop (1 / 100) 0 long_cashflows (0, 0)
          = Inr (1 - 1000 / (101 / 100), 1000 / (10201 / 10000))"
    unfolding long_cashflows_def
    by (simp add: p py_float_div_def z)
  then show ?thesis
    by (simp add: irr_iteration_def Let_def)
qed

lemma second_pass:
  "irr_iteration long_cashflows tolerance 1 = Inl OverflowError"
proof -
  have z: "npv_loop 1 (Suc (Suc 0)) (replicate 1022 0) (x, y) = Inl OverflowError" for x y
    using npv_loop_zeros_overflow[of "Suc (Suc 0)" 1021 x y] by simp
  have p: "py_float_pow 2 0 = Inr 1" "py_float_pow 2 (Suc 0) = Inr 2"
          "py_float_pow 2 (Suc (Suc 0)) = Inr 4"
    using py_float_pow_in_range(1)[of 2 0] py_float_pow_in_range(1)[of 2 "Suc 0"]
      py_float_pow_in_range(1)[of 2 "Suc (Suc 0)"] by simp_all
  have "npv_loop 1 0 long_cashflows (0, 0) = Inl OverflowError"
    unfolding long_cashflows_def
    by (simp add: p py_float_div_def z)
  then show ?thesis
    by (simp add: irr_iteration_def)
qed

lemma irr_loop_second_pass_error:
  assumes "irr_iteration cashflows tolerance r0 = Inr (Continue r1)"
      and "irr_iteration cashflows tolerance r1 = Inl e"
      and "2 \<le> n"
  shows "irr_loop cashflows tolerance n r0 k = Inl e"
proof -
  have "n = Suc (Suc (n - 2))" using assms(3) by simp
  then have "irr_loop cashflows tolerance n r0 k
               = irr_loop cashflows tolerance (Suc (Suc (n - 2))) r0 k" by simp
  then show ?thesis using assms(1,2) by simp
qed

text \<open>On \<open>long_cashflows\<close> the first pass is clamped to the rate 1.0, and the second
  pass computes \<open>2.0 ** 1024\<close>: \<open>OverflowError\<close>.\<close>

theorem calculate_irr_overflow_counterexample:
  "calculate_irr long_cashflows = Inl OverflowError"
proof -
  have "irr_loop long_cashflows (1 / 10 ^ 10) 100 (1 / 100) 0 = Inl OverflowError"
    by (rule irr_loop_second_pass_error[OF first_pass second_pass]) simp
  moreover have "length long_cashflows = 1024" by (simp add: long_cashflows_def)
  ultimately show ?thesis
    by (simp add: calculate_irr_def calculate_irr_counted_def)
qed


section \<open>Stress scenarios: the interest grows with the bump\<close>
























lemma prepayment_due_bump [simp]:
  "prepayment_due (a\<lparr>arg_scenario_bump := b\<rparr>) m = prepayment_due a m"
  by (simp add: prepayment_due_def)

lemma keep_fraction_bump [simp]:
  "keep_fraction (a\<lparr>arg_scenario_bump := b\<rparr>) m c = keep_fraction a m c"
  by (simp add: keep_fraction_def)

lemma pay_fraction_bump [simp]:
  "pay_fraction (a\<lparr>arg_scenario_bump := b\<rparr>) m c = pay_fraction a m c"
  by (simp add: pay_fraction_def)





















section \<open>Stress scenarios: an APR that falls\<close>














end
